theory Spec2Isabelle
  imports Main "HOL-Library.Product_Lexorder" "HOL-Library.Sublist" "HOL-Library.Multiset"
begin

section \<open>The PMO projects dashboard (betaapp.py)\<close>

text \<open>
  The program is a script over a data frame. Its own logic is \<open>load_data\<close> (column
  validation, date parsing, the derived columns \<open>Planned End\<close> and \<open>Overdue\<close>), the chain
  of sidebar filters, the timeline slice and the CSV export. The data-frame operations it
  calls (\<open>read_csv\<close>, \<open>to_datetime\<close>, \<open>fillna\<close>, \<open>isin\<close>, \<open>notna\<close>,
  \<open>dropna\<close>, \<open>head\<close>, \<open>sort_values\<close>, \<open>to_csv\<close>) belong to the library; each is
  modelled here by what it does to one column or one cell, with the missing value written
  out as \<open>None\<close>.
\<close>

subsection \<open>Data\<close>

text \<open>
  A timestamp is held as its calendar date (year, month, day); the lexicographic order on
  the triple is the order of the dates. The time of day is not represented: the dates the
  format parses are at midnight, and the one timestamp with a time of day, the time of the
  call that the cell texts \<open>today\<close> and \<open>now\<close> stand for, is before midnight of today
  exactly when its date is before today, which it is not. A cell of a text column is
  \<open>None\<close> when it is missing (NaN) and otherwise holds its text. Texts are strings of
  bytes, and what the model says of a digit or a letter it says of those of ASCII.
\<close>

type_synonym date = "nat \<times> nat \<times> nat"

type_synonym cell = "string option"

text \<open>
  The file handed to \<open>load_data\<close>: the header line and the data rows of a well-formed
  CSV, each row giving the text of its fields by column name (a field the row does not
  have is absent). What \<open>read_csv\<close> itself rejects (a file with no header line, a
  row with more fields than the header) is not a value of this type, and blank lines,
  which it skips, are not data rows.
\<close>

record csv_file =
  header :: "string list"
  records :: "(string \<rightharpoonup> string) list"

text \<open>
  The frame \<open>pd.read_csv\<close> returns: the column labels and the rows of cells. The reader
  also infers a type for each column from all its cells (a column of \<open>007\<close> alone is
  read as the number 7); the model keeps the text, and no statement below compares the
  text cells of a table with those of the table read back from its export.
\<close>

record raw_frame =
  columns :: "string list"
  rows :: "(string \<Rightarrow> cell) list"

text \<open>
  One row of the frame \<open>load_data\<close> returns: the thirteen required columns, the three
  date columns parsed, and the two derived columns. Columns beyond these are never read by
  the program.
\<close>

record project =
  ID :: cell
  Name :: cell
  Project_Vendor :: cell
  Project_Priority :: cell
  Business_Owner :: cell
  Project_Initiation_Date :: "date option"
  Target_Completion_Date :: "date option"
  Revised_Timeline :: "date option"
  Objective :: cell
  Project_Current_Status :: cell
  Project_Category :: cell
  Project_Manager :: cell
  Project_Custodian :: cell
  Planned_End :: "date option"
  Overdue :: bool

datatype error =
  ValueError_missing_columns "string list"
  | ValueError_time_data string
  | OutOfBoundsDatetime string
  | StreamlitAPIException
  | NameError string

definition REQUIRED_COLS :: "string list" where
  "REQUIRED_COLS =
     [''ID'', ''Name'', ''Project Vendor'', ''Project Priority'', ''Business Owner'',
      ''Project Initiation Date'', ''Target Completion Date'', ''Revised Timeline'',
      ''Objective'', ''Project Current Status'', ''Project Category'', ''Project Manager'',
      ''Project Custodian'']"

subsection \<open>Reading the file\<close>

text \<open>The texts \<open>read_csv\<close> takes for a missing value by default.\<close>

definition na_values :: "string list" where
  "na_values =
     ['''', ''#N/A'', ''#N/A N/A'', ''#NA'', ''-1.#IND'', ''-1.#QNAN'', ''-NaN'', ''-nan'',
      ''1.#IND'', ''1.#QNAN'', ''<NA>'', ''N/A'', ''NA'', ''NULL'', ''NaN'', ''None'',
      ''n/a'', ''nan'', ''null'']"

definition read_cell :: "string option \<Rightarrow> cell" where
  "read_cell f =
     (case f of
        None \<Rightarrow> None
      | Some s \<Rightarrow> if s \<in> set na_values then None else Some s)"

definition read_csv :: "csv_file \<Rightarrow> raw_frame" where
  "read_csv file =
     \<lparr>columns = header file, rows = map (\<lambda>rec c. read_cell (rec c)) (records file)\<rparr>"

subsection \<open>Parsing a date with the format \<open>%d-%b-%Y\<close>\<close>

definition digit :: "char \<Rightarrow> nat option" where
  "digit c = map_of (zip ''0123456789'' [0, 1, 2, 3, 4, 5, 6, 7, 8, 9]) c"

definition lower :: "char \<Rightarrow> char" where
  "lower c =
     (case map_of (zip ''ABCDEFGHIJKLMNOPQRSTUVWXYZ'' ''abcdefghijklmnopqrstuvwxyz'') c of
        None \<Rightarrow> c
      | Some l \<Rightarrow> l)"

text \<open>
  The directive \<open>%d\<close>: one digit 1 to 9, two digits 01 to 31, or a blank and one digit
  1 to 9.
\<close>

definition day_field :: "string \<Rightarrow> nat option" where
  "day_field ds =
     (case ds of
        [a] \<Rightarrow>
          (case digit a of
             None \<Rightarrow> None
           | Some n \<Rightarrow> if 1 \<le> n then Some n else None)
      | [a, b] \<Rightarrow>
          (case digit b of
             None \<Rightarrow> None
           | Some n \<Rightarrow>
               if a = CHR '' '' then (if 1 \<le> n then Some n else None)
               else
                 (case digit a of
                    None \<Rightarrow> None
                  | Some m \<Rightarrow>
                      if 1 \<le> 10 * m + n \<and> 10 * m + n \<le> 31 then Some (10 * m + n)
                      else None))
      | _ \<Rightarrow> None)"

text \<open>The directive \<open>%b\<close>: the abbreviated English month name, in any letter case.\<close>

definition month_abbr :: "string list" where
  "month_abbr =
     [''jan'', ''feb'', ''mar'', ''apr'', ''may'', ''jun'',
      ''jul'', ''aug'', ''sep'', ''oct'', ''nov'', ''dec'']"

definition month_field :: "string \<Rightarrow> nat option" where
  "month_field ms =
     map_of (zip month_abbr [1, 2, 3, 4, 5, 6, 7, 8, 9, 10, 11, 12]) (map lower ms)"

text \<open>The directive \<open>%Y\<close>: exactly four digits.\<close>

definition year_field :: "string \<Rightarrow> nat option" where
  "year_field ys =
     (case map digit ys of
        [Some a, Some b, Some c, Some d] \<Rightarrow> Some (1000 * a + 100 * b + 10 * c + d)
      | _ \<Rightarrow> None)"

definition days_in_month :: "nat \<Rightarrow> nat \<Rightarrow> nat" where
  "days_in_month y m =
     (if m = 2 then (if y mod 4 = 0 \<and> (y mod 100 \<noteq> 0 \<or> y mod 400 = 0) then 29 else 28)
      else if m = 4 \<or> m = 6 \<or> m = 9 \<or> m = 11 then 30
      else 31)"

text \<open>
  The fields of a text that has the layout of the format. The year 0000 is no year of the
  calendar, and a day that its month does not have is no date: both raise
  \<open>ValueError\<close>. A date of the calendar that the library's timestamp type cannot hold
  raises \<open>OutOfBoundsDatetime\<close>; which dates the type holds depends on its resolution,
  which differs between versions of the library, so it is the parameter \<open>holds\<close>.
\<close>

definition parse_fields ::
  "(date \<Rightarrow> bool) \<Rightarrow> string \<Rightarrow> string \<Rightarrow> char \<Rightarrow> string \<Rightarrow> char \<Rightarrow> string \<Rightarrow> error + date" where
  "parse_fields holds s ds sep1 ms sep2 ys =
     (if sep1 \<noteq> CHR ''-'' \<or> sep2 \<noteq> CHR ''-'' then Inl (ValueError_time_data s)
      else
        (case day_field ds of
           None \<Rightarrow> Inl (ValueError_time_data s)
         | Some d \<Rightarrow>
             (case month_field ms of
                None \<Rightarrow> Inl (ValueError_time_data s)
              | Some m \<Rightarrow>
                  (case year_field ys of
                     None \<Rightarrow> Inl (ValueError_time_data s)
                   | Some y \<Rightarrow>
                       if y < 1 \<or> days_in_month y m < d then Inl (ValueError_time_data s)
                       else if holds (y, m, d) then Inr (y, m, d)
                       else Inl (OutOfBoundsDatetime s)))))"

text \<open>
  The library's parser of one text under the format. Before it tries the format it takes
  the texts \<open>now\<close> and \<open>today\<close> for the time of the call, whatever the format is;
  \<open>now\<close> below is the date of the call. Otherwise the whole text has to match: a day of
  two characters gives eleven characters, a day of one character ten.
\<close>

definition strptime :: "(date \<Rightarrow> bool) \<Rightarrow> date \<Rightarrow> string \<Rightarrow> error + date" where
  "strptime holds now s =
     (if s = ''now'' \<or> s = ''today'' then Inr now
      else if length s = 11 then
        parse_fields holds s (take 2 s) (s ! 2) (take 3 (drop 3 s)) (s ! 6) (drop 7 s)
      else if length s = 10 then
        parse_fields holds s (take 1 s) (s ! 1) (take 3 (drop 2 s)) (s ! 5) (drop 6 s)
      else Inl (ValueError_time_data s))"

text \<open>
  \<open>pd.to_datetime(col, format="%d-%b-%Y", errors="coerce")\<close> on one cell: a missing
  cell stays missing, and an error of the parser becomes the missing date instead of
  being raised.
\<close>

definition to_datetime :: "(date \<Rightarrow> bool) \<Rightarrow> date \<Rightarrow> cell \<Rightarrow> date option" where
  "to_datetime holds now c =
     (case c of
        None \<Rightarrow> None
      | Some s \<Rightarrow> (case strptime holds now s of Inl e \<Rightarrow> None | Inr d \<Rightarrow> Some d))"


fun split_on :: "char \<Rightarrow> string \<Rightarrow> string list" where
  "split_on c [] = [[]]"
| "split_on c (x # xs) =
     (if x = c then [] # split_on c xs
      else (case split_on c xs of [] \<Rightarrow> [[x]] | w # ws \<Rightarrow> (x # w) # ws))"






subsection \<open>Cell operations of the derived columns\<close>

definition fillna :: "'a option \<Rightarrow> 'a option \<Rightarrow> 'a option" where
  "fillna a b = (case a of None \<Rightarrow> b | Some x \<Rightarrow> Some x)"

definition notna :: "'a option \<Rightarrow> bool" where
  "notna a = (case a of None \<Rightarrow> False | Some x \<Rightarrow> True)"

text \<open>A comparison with the missing date is false.\<close>

definition lt :: "date option \<Rightarrow> date \<Rightarrow> bool" where
  "lt a t = (case a of None \<Rightarrow> False | Some d \<Rightarrow> d < t)"

text \<open>A missing cell is in no list of values.\<close>

definition isin :: "cell \<Rightarrow> string list \<Rightarrow> bool" where
  "isin c vs = (case c of None \<Rightarrow> False | Some s \<Rightarrow> s \<in> set vs)"

subsection \<open>\<open>load_data\<close>\<close>

text \<open>
  The body of \<open>load_data\<close> after the column check, on one row. \<open>today\<close> is the date
  of the call, \<open>datetime.today().date()\<close>, and \<open>holds\<close> the range of the library's
  timestamp type.
\<close>

definition load_row :: "(date \<Rightarrow> bool) \<Rightarrow> date \<Rightarrow> (string \<Rightarrow> cell) \<Rightarrow> project" where
  "load_row holds today r =
     (let initiation = to_datetime holds today (r ''Project Initiation Date'');
          target = to_datetime holds today (r ''Target Completion Date'');
          revised = to_datetime holds today (r ''Revised Timeline'');
          planned = fillna revised target
      in \<lparr>ID = r ''ID'',
          Name = r ''Name'',
          Project_Vendor = r ''Project Vendor'',
          Project_Priority = r ''Project Priority'',
          Business_Owner = r ''Business Owner'',
          Project_Initiation_Date = initiation,
          Target_Completion_Date = target,
          Revised_Timeline = revised,
          Objective = r ''Objective'',
          Project_Current_Status = r ''Project Current Status'',
          Project_Category = r ''Project Category'',
          Project_Manager = r ''Project Manager'',
          Project_Custodian = r ''Project Custodian'',
          Planned_End = planned,
          Overdue =
            (notna planned \<and> lt planned today
             \<and> \<not> isin (r ''Project Current Status'') [''Live'', ''Withdraw''])\<rparr>)"

definition load_data :: "(date \<Rightarrow> bool) \<Rightarrow> date \<Rightarrow> csv_file \<Rightarrow> error + project list" where
  "load_data holds today file =
     (let df = read_csv file;
          missing = filter (\<lambda>c. c \<notin> set (columns df)) REQUIRED_COLS
      in if missing \<noteq> [] then Inl (ValueError_missing_columns missing)
         else Inr (map (load_row holds today) (rows df)))"

subsection \<open>The sidebar filters\<close>

text \<open>
  The six multiselect widgets each give a list of chosen values; an empty list leaves the
  frame as it is, a non-empty one keeps the rows whose cell is in the list.
\<close>

record selections =
  status_sel :: "string list"
  priority_sel :: "string list"
  category_sel :: "string list"
  owner_sel :: "string list"
  manager_sel :: "string list"
  vendor_sel :: "string list"

definition isin_rows :: "(project \<Rightarrow> cell) \<Rightarrow> string list \<Rightarrow> project list \<Rightarrow> project list" where
  "isin_rows col sel df = (if sel \<noteq> [] then filter (\<lambda>r. isin (col r) sel) df else df)"

definition filtered :: "selections \<Rightarrow> project list \<Rightarrow> project list" where
  "filtered s df =
     isin_rows Project_Vendor (vendor_sel s)
       (isin_rows Project_Manager (manager_sel s)
          (isin_rows Business_Owner (owner_sel s)
             (isin_rows Project_Category (category_sel s)
                (isin_rows Project_Priority (priority_sel s)
                   (isin_rows Project_Current_Status (status_sel s) df)))))"

text \<open>The fields the filters read, each with its selection, in the order of the script.\<close>

definition selected_fields :: "selections \<Rightarrow> ((project \<Rightarrow> cell) \<times> string list) list" where
  "selected_fields s =
     [(Project_Current_Status, status_sel s),
      (Project_Priority, priority_sel s),
      (Project_Category, category_sel s),
      (Business_Owner, owner_sel s),
      (Project_Manager, manager_sel s),
      (Project_Vendor, vendor_sel s)]"

text \<open>
  The retention rule in the specification's words: for every field whose selection is not
  empty, the row has a value for the field and the value is one of those selected.
\<close>

definition row_matches :: "selections \<Rightarrow> project \<Rightarrow> bool" where
  "row_matches s r \<longleftrightarrow>
     (\<forall>(col, sel) \<in> set (selected_fields s).
        sel \<noteq> [] \<longrightarrow> (\<exists>v. col r = Some v \<and> v \<in> set sel))"

subsection \<open>The timeline\<close>

text \<open>
  \<open>filtered.dropna(subset=["Project Initiation Date", "Planned End"]).head(show_n)\<close>,
  and then, when the slice is not empty, \<open>sort_values("Project Initiation Date")\<close> for the
  chart; \<open>fig_tl\<close> is the list of rows the chart is drawn from, empty when the script
  shows its notice instead of a chart. The sort puts a missing date last; the order it
  gives to rows with equal dates is the library's and no statement below depends on it.
\<close>

definition dropna :: "project list \<Rightarrow> project list" where
  "dropna df = filter (\<lambda>r. notna (Project_Initiation_Date r) \<and> notna (Planned_End r)) df"

definition timeline_df :: "project list \<Rightarrow> nat \<Rightarrow> project list" where
  "timeline_df df show_n = take show_n (dropna df)"

definition na_last :: "date option \<Rightarrow> nat \<times> date" where
  "na_last a = (case a of None \<Rightarrow> (1, (0, 0, 0)) | Some d \<Rightarrow> (0, d))"

definition sort_values :: "project list \<Rightarrow> project list" where
  "sort_values df = sort_key (\<lambda>r. na_last (Project_Initiation_Date r)) df"

definition fig_tl :: "project list \<Rightarrow> nat \<Rightarrow> project list" where
  "fig_tl df show_n =
     (let t = timeline_df df show_n in if length t > 0 then sort_values t else [])"

text \<open>
  The timeline slice in the specification's words: the rows with both dates, sorted by
  initiation date, then cut to the first \<open>limit\<close> rows.
\<close>

definition timelineSlice_spec :: "project list \<Rightarrow> nat \<Rightarrow> project list" where
  "timelineSlice_spec df limit = take limit (sort_values (dropna df))"

subsection \<open>The CSV export\<close>

text \<open>
  The body of \<open>to_csv_bytes\<close>, \<open>df_in.to_csv(index=False)\<close>, on the frame the script
  passes at its last call, \<open>filtered[REQUIRED_COLS]\<close>: the thirteen required columns under
  their names, a missing value written as the empty field and a date in the library's format
  for a date column, year-month-day in digits (followed by the time of day in a column
  that holds one, which makes the text longer and no closer to the format of
  \<open>load_data\<close>).
\<close>

definition digit_char :: "nat \<Rightarrow> char" where
  "digit_char n = ''0123456789'' ! (n mod 10)"

definition isoformat :: "date \<Rightarrow> string" where
  "isoformat t =
     (case t of (y, m, d) \<Rightarrow>
        [digit_char (y div 1000), digit_char (y div 100), digit_char (y div 10), digit_char y,
         CHR ''-'', digit_char (m div 10), digit_char m,
         CHR ''-'', digit_char (d div 10), digit_char d])"

definition write_cell :: "cell \<Rightarrow> string" where
  "write_cell c = (case c of None \<Rightarrow> [] | Some s \<Rightarrow> s)"

definition write_date :: "date option \<Rightarrow> string" where
  "write_date a = (case a of None \<Rightarrow> [] | Some d \<Rightarrow> isoformat d)"

definition to_csv_row :: "project \<Rightarrow> (string \<rightharpoonup> string)" where
  "to_csv_row r =
     map_of
       [(''ID'', write_cell (ID r)),
        (''Name'', write_cell (Name r)),
        (''Project Vendor'', write_cell (Project_Vendor r)),
        (''Project Priority'', write_cell (Project_Priority r)),
        (''Business Owner'', write_cell (Business_Owner r)),
        (''Project Initiation Date'', write_date (Project_Initiation_Date r)),
        (''Target Completion Date'', write_date (Target_Completion_Date r)),
        (''Revised Timeline'', write_date (Revised_Timeline r)),
        (''Objective'', write_cell (Objective r)),
        (''Project Current Status'', write_cell (Project_Current_Status r)),
        (''Project Category'', write_cell (Project_Category r)),
        (''Project Manager'', write_cell (Project_Manager r)),
        (''Project Custodian'', write_cell (Project_Custodian r))]"

definition to_csv_bytes :: "project list \<Rightarrow> csv_file" where
  "to_csv_bytes df = \<lparr>header = REQUIRED_COLS, records = map to_csv_row df\<rparr>"

text \<open>
  The script defines \<open>to_csv_bytes\<close> inside the branch it takes when the filtered frame
  has an overdue row (\<open>if overdue_df.empty: ... else: ... def to_csv_bytes\<close>), and calls
  it for the filtered frame at the end, outside that branch. In a run with no overdue row
  the name is not bound when the call is reached, and the call raises \<open>NameError\<close>.
  With an empty filtered frame the script does not get that far: the slider of the
  timeline, whose range is then from 0 to 0, raises before.
\<close>

definition overdue_df :: "project list \<Rightarrow> project list" where
  "overdue_df df = filter (\<lambda>r. Overdue r = True) df"

definition download_filtered_csv :: "project list \<Rightarrow> error + csv_file" where
  "download_filtered_csv df =
     (if length df = 0 then Inl StreamlitAPIException
      else if overdue_df df = [] then Inl (NameError ''to_csv_bytes'')
      else Inr (to_csv_bytes df))"


subsection \<open>Sample inputs\<close>

definition today0 :: date where
  "today0 = (2024, 6, 1)"

text \<open>
  The dates that a timestamp of nanosecond resolution holds, the narrowest range among the
  resolutions of the library.
\<close>

definition nanosecond_range :: "date \<Rightarrow> bool" where
  "nanosecond_range d \<longleftrightarrow> (1677, 9, 22) \<le> d \<and> d \<le> (2262, 4, 11)"

text \<open>
  A file with the thirteen columns and one more. The first row has no revised date and a
  target in the past; the second is live with a revised date in the future; the third has
  no status, and dates that do not parse (a word, a day its month does not have, a date in
  another format).
\<close>

definition sample_file :: csv_file where
  "sample_file =
     \<lparr>header = REQUIRED_COLS @ [''Notes''],
      records =
        [map_of
           [(''ID'', ''1''), (''Name'', ''Alpha''), (''Project Priority'', ''High''),
            (''Project Initiation Date'', ''05-Jan-2019''),
            (''Target Completion Date'', ''01-Jan-2020''), (''Revised Timeline'', ''''),
            (''Project Current Status'', ''In Progress''), (''Project Manager'', ''Bilal'')],
         map_of
           [(''ID'', ''2''), (''Name'', ''Beta''), (''Project Priority'', ''Low''),
            (''Project Initiation Date'', ''10-Mar-2018''),
            (''Target Completion Date'', ''01-Jan-2020''), (''Revised Timeline'', ''15-Aug-2030''),
            (''Project Current Status'', ''Live''), (''Project Manager'', ''NA'')],
         map_of
           [(''ID'', ''3''), (''Name'', ''Gamma''),
            (''Project Initiation Date'', ''soon''),
            (''Target Completion Date'', ''30-Feb-2021''), (''Revised Timeline'', ''2021-03-01''),
            (''Project Current Status'', ''''), (''Project Manager'', ''Bilal'')]]\<rparr>"

definition sample_row1 :: project where
  "sample_row1 =
     \<lparr>ID = Some ''1'', Name = Some ''Alpha'', Project_Vendor = None,
      Project_Priority = Some ''High'', Business_Owner = None,
      Project_Initiation_Date = Some (2019, 1, 5),
      Target_Completion_Date = Some (2020, 1, 1), Revised_Timeline = None,
      Objective = None, Project_Current_Status = Some ''In Progress'',
      Project_Category = None, Project_Manager = Some ''Bilal'', Project_Custodian = None,
      Planned_End = Some (2020, 1, 1), Overdue = True\<rparr>"

definition sample_row2 :: project where
  "sample_row2 =
     \<lparr>ID = Some ''2'', Name = Some ''Beta'', Project_Vendor = None,
      Project_Priority = Some ''Low'', Business_Owner = None,
      Project_Initiation_Date = Some (2018, 3, 10),
      Target_Completion_Date = Some (2020, 1, 1), Revised_Timeline = Some (2030, 8, 15),
      Objective = None, Project_Current_Status = Some ''Live'',
      Project_Category = None, Project_Manager = None, Project_Custodian = None,
      Planned_End = Some (2030, 8, 15), Overdue = False\<rparr>"

definition sample_row3 :: project where
  "sample_row3 =
     \<lparr>ID = Some ''3'', Name = Some ''Gamma'', Project_Vendor = None,
      Project_Priority = None, Business_Owner = None,
      Project_Initiation_Date = None,
      Target_Completion_Date = None, Revised_Timeline = None,
      Objective = None, Project_Current_Status = None,
      Project_Category = None, Project_Manager = Some ''Bilal'', Project_Custodian = None,
      Planned_End = None, Overdue = False\<rparr>"

definition sample_table :: "project list" where
  "sample_table = [sample_row1, sample_row2, sample_row3]"

text \<open>A file whose header has only two of the required columns.\<close>

definition short_file :: csv_file where
  "short_file =
     \<lparr>header = [''Name'', ''ID''],
      records = [map_of [(''ID'', ''1''), (''Name'', ''Alpha'')]]\<rparr>"

text \<open>One row with a target date in the past and an empty status cell.\<close>

definition null_status_file :: csv_file where
  "null_status_file =
     \<lparr>header = REQUIRED_COLS,
      records =
        [map_of
           [(''ID'', ''7''), (''Name'', ''Delta''),
            (''Target Completion Date'', ''01-Jan-2020''),
            (''Project Current Status'', '''')]]\<rparr>"

definition null_status_row :: project where
  "null_status_row =
     \<lparr>ID = Some ''7'', Name = Some ''Delta'', Project_Vendor = None,
      Project_Priority = None, Business_Owner = None,
      Project_Initiation_Date = None,
      Target_Completion_Date = Some (2020, 1, 1), Revised_Timeline = None,
      Objective = None, Project_Current_Status = None,
      Project_Category = None, Project_Manager = None, Project_Custodian = None,
      Planned_End = Some (2020, 1, 1), Overdue = True\<rparr>"

text \<open>The row of \<open>null_status_file\<close>, exported and loaded again.\<close>

definition reloaded_row :: project where
  "reloaded_row =
     \<lparr>ID = Some ''7'', Name = Some ''Delta'', Project_Vendor = None,
      Project_Priority = None, Business_Owner = None,
      Project_Initiation_Date = None,
      Target_Completion_Date = None, Revised_Timeline = None,
      Objective = None, Project_Current_Status = None,
      Project_Category = None, Project_Manager = None, Project_Custodian = None,
      Planned_End = None, Overdue = False\<rparr>"



text \<open>Two rows with both dates, the later initiation date first.\<close>

definition timeline_file :: csv_file where
  "timeline_file =
     \<lparr>header = REQUIRED_COLS,
      records =
        [map_of
           [(''ID'', ''1''), (''Name'', ''March''),
            (''Project Initiation Date'', ''01-Mar-2024''),
            (''Target Completion Date'', ''01-Dec-2024'')],
         map_of
           [(''ID'', ''2''), (''Name'', ''January''),
            (''Project Initiation Date'', ''01-Jan-2024''),
            (''Target Completion Date'', ''01-Dec-2024'')]]\<rparr>"

definition row_march :: project where
  "row_march =
     \<lparr>ID = Some ''1'', Name = Some ''March'', Project_Vendor = None,
      Project_Priority = None, Business_Owner = None,
      Project_Initiation_Date = Some (2024, 3, 1),
      Target_Completion_Date = Some (2024, 12, 1), Revised_Timeline = None,
      Objective = None, Project_Current_Status = None,
      Project_Category = None, Project_Manager = None, Project_Custodian = None,
      Planned_End = Some (2024, 12, 1), Overdue = False\<rparr>"

definition row_january :: project where
  "row_january =
     \<lparr>ID = Some ''2'', Name = Some ''January'', Project_Vendor = None,
      Project_Priority = None, Business_Owner = None,
      Project_Initiation_Date = Some (2024, 1, 1),
      Target_Completion_Date = Some (2024, 12, 1), Revised_Timeline = None,
      Objective = None, Project_Current_Status = None,
      Project_Category = None, Project_Manager = None, Project_Custodian = None,
      Planned_End = Some (2024, 12, 1), Overdue = False\<rparr>"

definition no_selection :: selections where
  "no_selection =
     \<lparr>status_sel = [], priority_sel = [], category_sel = [], owner_sel = [],
      manager_sel = [], vendor_sel = []\<rparr>"

definition some_selection :: selections where
  "some_selection =
     \<lparr>status_sel = [], priority_sel = [''High'', ''Low''], category_sel = [], owner_sel = [],
      manager_sel = [''Bilal''], vendor_sel = []\<rparr>"

section \<open>Facts about the model\<close>

lemmas parse_defs =
  strptime_def parse_fields_def day_field_def month_field_def month_abbr_def year_field_def
  digit_def lower_def days_in_month_def nanosecond_range_def

lemmas load_defs =
  load_data_def read_csv_def REQUIRED_COLS_def load_row_def read_cell_def na_values_def
  to_datetime_def fillna_def notna_def lt_def isin_def Let_def


subsection \<open>\<open>load_data\<close> on the two kinds of header\<close>

lemma load_data_Inr:
  "load_data holds today file = Inr tbl \<Longrightarrow>
   tbl = map (\<lambda>rec. load_row holds today (\<lambda>c. read_cell (rec c))) (records file)"
  by (auto simp: load_data_def read_csv_def Let_def o_def split: if_splits)

lemma load_data_complete:
  "set REQUIRED_COLS \<subseteq> set (header file) \<Longrightarrow>
   load_data holds today file =
     Inr (map (\<lambda>rec. load_row holds today (\<lambda>c. read_cell (rec c))) (records file))"
  by (auto simp: load_data_def read_csv_def Let_def o_def filter_empty_conv)

lemma load_data_missing:
  "\<not> set REQUIRED_COLS \<subseteq> set (header file) \<Longrightarrow>
   load_data holds today file =
     Inl (ValueError_missing_columns (filter (\<lambda>c. c \<notin> set (header file)) REQUIRED_COLS))"
  by (auto simp: load_data_def read_csv_def Let_def o_def filter_empty_conv)

lemma load_data_row:
  assumes "load_data holds today file = Inr tbl" and "r \<in> set tbl"
  obtains x where "r = load_row holds today x"
  using assms by (auto dest!: load_data_Inr)

subsection \<open>The sample inputs, loaded\<close>

lemma sample_file_header: "set REQUIRED_COLS \<subseteq> set (header sample_file)"
  by (auto simp: sample_file_def)

lemma load_sample_file: "load_data nanosecond_range today0 sample_file = Inr sample_table"
  by (simp add: load_defs parse_defs today0_def sample_file_def sample_table_def
      sample_row1_def sample_row2_def sample_row3_def)

lemma load_null_status_file:
  "load_data nanosecond_range today0 null_status_file = Inr [null_status_row]"
  by (simp add: load_defs parse_defs today0_def null_status_file_def null_status_row_def)

lemma load_timeline_file:
  "load_data nanosecond_range today0 timeline_file = Inr [row_march, row_january]"
  by (simp add: load_defs parse_defs today0_def timeline_file_def row_march_def row_january_def)


subsection \<open>A text the parser accepts is a special text or has the pattern\<close>

lemma split_on_not_Nil: "split_on c xs \<noteq> []"
  by (induction xs) (auto split: list.splits)















subsection \<open>Dates written by the export do not parse\<close>

lemma digit_char_not_dash: "digit_char n \<noteq> CHR ''-''"
proof -
  have "n mod 10 < length ''0123456789''" by simp
  then have "digit_char n \<in> set ''0123456789''"
    unfolding digit_char_def by (rule nth_mem)
  then show ?thesis by auto
qed

lemma parse_fields_separator:
  "sep1 \<noteq> CHR ''-'' \<Longrightarrow>
   parse_fields holds s ds sep1 ms sep2 ys = Inl (ValueError_time_data s)"
  by (simp add: parse_fields_def)

lemma strptime_isoformat:
  "strptime holds now (isoformat t) = Inl (ValueError_time_data (isoformat t))"
proof -
  obtain y m d where t: "t = (y, m, d)" by (cases t)
  have len: "length (isoformat t) = 10" by (simp add: t isoformat_def)
  have sep: "isoformat t ! 1 = digit_char (y div 100)" by (simp add: t isoformat_def)
  from len have sp: "isoformat t \<noteq> ''now''" "isoformat t \<noteq> ''today''" by auto
  have "strptime holds now (isoformat t) =
        parse_fields holds (isoformat t) (take 1 (isoformat t)) (isoformat t ! 1)
          (take 3 (drop 2 (isoformat t))) (isoformat t ! 5) (drop 6 (isoformat t))"
    unfolding strptime_def using len sp by simp
  also have "\<dots> = Inl (ValueError_time_data (isoformat t))"
    unfolding sep by (rule parse_fields_separator) (rule digit_char_not_dash)
  finally show ?thesis .
qed

lemma to_datetime_write_date: "to_datetime holds now (read_cell (Some (write_date a))) = None"
proof (cases a)
  case None
  then show ?thesis by (simp add: write_date_def read_cell_def na_values_def to_datetime_def)
next
  case (Some d)
  then show ?thesis
    by (simp add: write_date_def read_cell_def to_datetime_def strptime_isoformat)
qed

lemma reload_row:
  assumes "r' = load_row holds today (\<lambda>c. read_cell (to_csv_row r c))"
  shows "Project_Initiation_Date r' = None \<and> Target_Completion_Date r' = None \<and>
         Revised_Timeline r' = None \<and> Planned_End r' = None \<and> Overdue r' = False"
  unfolding assms
  by (simp add: load_row_def to_csv_row_def Let_def to_datetime_write_date fillna_def
      notna_def)

lemma download_without_overdue_row:
  "download_filtered_csv [row_march, row_january] = Inl (NameError ''to_csv_bytes'')"
  by (simp add: download_filtered_csv_def overdue_df_def row_march_def row_january_def)

subsection \<open>The filters as one predicate\<close>

lemma isin_Some: "isin c vs \<longleftrightarrow> (\<exists>v. c = Some v \<and> v \<in> set vs)"
  by (cases c) (simp_all add: isin_def)

lemma isin_rows_filter:
  "isin_rows col sel df = filter (\<lambda>r. sel \<noteq> [] \<longrightarrow> (\<exists>v. col r = Some v \<and> v \<in> set sel)) df"
  by (simp add: isin_rows_def isin_Some)

lemma row_matches_conj:
  "row_matches s r \<longleftrightarrow>
     (status_sel s \<noteq> [] \<longrightarrow> (\<exists>v. Project_Current_Status r = Some v \<and> v \<in> set (status_sel s))) \<and>
     (priority_sel s \<noteq> [] \<longrightarrow> (\<exists>v. Project_Priority r = Some v \<and> v \<in> set (priority_sel s))) \<and>
     (category_sel s \<noteq> [] \<longrightarrow> (\<exists>v. Project_Category r = Some v \<and> v \<in> set (category_sel s))) \<and>
     (owner_sel s \<noteq> [] \<longrightarrow> (\<exists>v. Business_Owner r = Some v \<and> v \<in> set (owner_sel s))) \<and>
     (manager_sel s \<noteq> [] \<longrightarrow> (\<exists>v. Project_Manager r = Some v \<and> v \<in> set (manager_sel s))) \<and>
     (vendor_sel s \<noteq> [] \<longrightarrow> (\<exists>v. Project_Vendor r = Some v \<and> v \<in> set (vendor_sel s)))"
  unfolding row_matches_def selected_fields_def by simp

lemma filtered_filter: "filtered s df = filter (row_matches s) df"
  unfolding filtered_def isin_rows_filter filter_filter row_matches_conj
  by (rule filter_cong) (simp, blast)

subsection \<open>The sort of the timeline\<close>

lemma sorted_sort_values:
  assumes "\<forall>r \<in> set df. Project_Initiation_Date r \<noteq> None"
  shows "sorted_wrt
           (\<lambda>a b. \<exists>x y. Project_Initiation_Date a = Some x
                         \<and> Project_Initiation_Date b = Some y \<and> x \<le> y)
           (sort_values df)"
proof -
  let ?k = "\<lambda>r. na_last (Project_Initiation_Date r)"
  have "sorted (map ?k (sort_values df))" by (simp add: sort_values_def)
  then have s: "sorted_wrt (\<lambda>a b. ?k a \<le> ?k b) (sort_values df)" by (simp add: sorted_wrt_map)
  have m: "set (sort_values df) = set df" by (simp add: sort_values_def)
  show ?thesis
  proof (rule sorted_wrt_mono_rel [OF _ s])
    fix a b
    assume a: "a \<in> set (sort_values df)" and b: "b \<in> set (sort_values df)"
      and le: "?k a \<le> ?k b"
    from a m assms obtain x where x: "Project_Initiation_Date a = Some x" by blast
    from b m assms obtain y where y: "Project_Initiation_Date b = Some y" by blast
    from le have "x \<le> y" unfolding x y na_last_def by simp
    with x y show "\<exists>x y. Project_Initiation_Date a = Some x
        \<and> Project_Initiation_Date b = Some y \<and> x \<le> y"
      by blast
  qed
qed

lemma notna_iff: "notna a \<longleftrightarrow> a \<noteq> None"
  by (cases a) (simp_all add: notna_def)

lemma fig_tl_sort: "fig_tl df show_n = sort_values (timeline_df df show_n)"
  by (simp add: fig_tl_def Let_def sort_values_def)

lemma set_timeline_df:
  "r \<in> set (timeline_df df show_n) \<Longrightarrow> Project_Initiation_Date r \<noteq> None \<and> Planned_End r \<noteq> None"
  by (auto simp: timeline_df_def dropna_def notna_def dest!: in_set_takeD split: option.splits)

section \<open>The claims\<close>

text \<open>
  C2. In every row of the table \<open>load_data\<close> returns, the planned end is the revised
  timeline when there is one, and the target completion date (which may be missing)
  otherwise.
\<close>

theorem planned_end_revised_else_target:
  assumes "load_data holds today file = Inr tbl" and "r \<in> set tbl"
  shows "(Revised_Timeline r \<noteq> None \<longrightarrow> Planned_End r = Revised_Timeline r) \<and>
         (Revised_Timeline r = None \<longrightarrow> Planned_End r = Target_Completion_Date r)"
proof -
  from assms obtain x where "r = load_row holds today x" by (rule load_data_row)
  then show ?thesis
    by (simp add: load_row_def Let_def fillna_def split: option.splits)
qed

theorem planned_end_revised_else_target_witness:
  "load_data nanosecond_range today0 sample_file = Inr sample_table \<and> sample_row2 \<in> set sample_table \<and>
   sample_row1 \<in> set sample_table \<and>
   Revised_Timeline sample_row2 \<noteq> None \<and> Planned_End sample_row2 = Revised_Timeline sample_row2 \<and>
   Revised_Timeline sample_row1 = None \<and>
   Planned_End sample_row1 = Target_Completion_Date sample_row1"
  using planned_end_revised_else_target [OF load_sample_file, of sample_row2]
    planned_end_revised_else_target [OF load_sample_file, of sample_row1]
  by (simp add: load_sample_file sample_table_def sample_row1_def sample_row2_def)

text \<open>
  C1, as stated, asks for two things of every row that \<open>load_data\<close> returns: that
  \<open>Overdue\<close> holds exactly when the planned end is present, before today, and the status
  is neither Live nor Withdraw; and that a row with no status is not overdue. The second
  fails: \<open>isin\<close> is false on a missing status, so its negation is true, and the row
  of \<open>null_status_file\<close> (target 01-Jan-2020, status empty) is overdue on 1 June 2024.
\<close>

theorem overdue_null_status_counterexample:
  "load_data nanosecond_range today0 null_status_file = Inr [null_status_row] \<and>
   Project_Current_Status null_status_row = None \<and>
   Overdue null_status_row = True"
  by (simp add: load_null_status_file) (simp add: null_status_row_def)

text \<open>
  C1, amended. In every row of the table \<open>load_data\<close> returns, \<open>Overdue\<close> holds if
  and only if the planned end is present and strictly before today and the status is
  neither Live nor Withdraw, where a missing status counts as neither: a row with no
  status is overdue exactly when its planned end is present and before today.
\<close>

theorem overdue_iff:
  assumes "load_data holds today file = Inr tbl" and "r \<in> set tbl"
  shows "(Overdue r \<longleftrightarrow>
            (\<exists>d. Planned_End r = Some d \<and> d < today) \<and>
            Project_Current_Status r \<noteq> Some ''Live'' \<and>
            Project_Current_Status r \<noteq> Some ''Withdraw'') \<and>
         (Project_Current_Status r = None \<longrightarrow>
            (Overdue r \<longleftrightarrow> (\<exists>d. Planned_End r = Some d \<and> d < today)))"
proof -
  from assms obtain x where r: "r = load_row holds today x" by (rule load_data_row)
  have "Overdue r \<longleftrightarrow>
          notna (Planned_End r) \<and> lt (Planned_End r) today \<and>
          \<not> isin (Project_Current_Status r) [''Live'', ''Withdraw'']"
    unfolding r by (simp add: load_row_def Let_def)
  moreover have "notna (Planned_End r) \<and> lt (Planned_End r) today \<longleftrightarrow>
                   (\<exists>d. Planned_End r = Some d \<and> d < today)"
    by (cases "Planned_End r") (simp_all add: notna_def lt_def)
  moreover have "\<not> isin (Project_Current_Status r) [''Live'', ''Withdraw''] \<longleftrightarrow>
                   Project_Current_Status r \<noteq> Some ''Live'' \<and>
                   Project_Current_Status r \<noteq> Some ''Withdraw''"
    by (cases "Project_Current_Status r") (simp_all add: isin_def)
  ultimately have main: "Overdue r \<longleftrightarrow>
            (\<exists>d. Planned_End r = Some d \<and> d < today) \<and>
            Project_Current_Status r \<noteq> Some ''Live'' \<and>
            Project_Current_Status r \<noteq> Some ''Withdraw''"
    by blast
  then show ?thesis by simp
qed

theorem overdue_iff_witness:
  "load_data nanosecond_range today0 sample_file = Inr sample_table \<and> sample_row1 \<in> set sample_table \<and>
   Overdue sample_row1 \<and>
   (\<exists>d. Planned_End sample_row1 = Some d \<and> d < today0) \<and>
   Project_Current_Status sample_row1 \<noteq> Some ''Live'' \<and>
   Project_Current_Status sample_row1 \<noteq> Some ''Withdraw''"
proof -
  have m: "sample_row1 \<in> set sample_table" by (simp add: sample_table_def)
  have o: "Overdue sample_row1" by (simp add: sample_row1_def)
  from overdue_iff [OF load_sample_file m] o
  show ?thesis using load_sample_file m by blast
qed

text \<open>
  C4. When a required column is not in the header, \<open>load_data\<close> raises the error that
  lists the missing columns, exactly those of the thirteen that the header lacks, and
  returns no table; when the header has all thirteen, it returns a table.
\<close>

theorem load_data_schema_check:
  "length REQUIRED_COLS = 13 \<and>
   (\<not> set REQUIRED_COLS \<subseteq> set (header file) \<longrightarrow>
      (\<exists>missing. load_data holds today file = Inl (ValueError_missing_columns missing) \<and>
         set missing = set REQUIRED_COLS - set (header file) \<and> distinct missing)) \<and>
   (set REQUIRED_COLS \<subseteq> set (header file) \<longrightarrow> (\<exists>tbl. load_data holds today file = Inr tbl))"
proof -
  have d: "distinct REQUIRED_COLS" by (simp add: REQUIRED_COLS_def)
  have l: "length REQUIRED_COLS = 13" by (simp add: REQUIRED_COLS_def)
  let ?missing = "filter (\<lambda>c. c \<notin> set (header file)) REQUIRED_COLS"
  have s: "set ?missing = set REQUIRED_COLS - set (header file)" by auto
  from d have dm: "distinct ?missing" by (rule distinct_filter)
  show ?thesis
    using l s dm load_data_missing [of "file" holds today]
      load_data_complete [of "file" holds today]
    by blast
qed

theorem load_data_schema_check_witness:
  "\<not> set REQUIRED_COLS \<subseteq> set (header short_file) \<and>
   load_data nanosecond_range today0 short_file =
     Inl (ValueError_missing_columns
            [''Project Vendor'', ''Project Priority'', ''Business Owner'',
             ''Project Initiation Date'', ''Target Completion Date'', ''Revised Timeline'',
             ''Objective'', ''Project Current Status'', ''Project Category'',
             ''Project Manager'', ''Project Custodian'']) \<and>
   set REQUIRED_COLS \<subseteq> set (header sample_file) \<and>
   (\<exists>tbl. load_data nanosecond_range today0 sample_file = Inr tbl)"
proof -
  have a: "\<not> set REQUIRED_COLS \<subseteq> set (header short_file)"
    by (simp add: REQUIRED_COLS_def short_file_def)
  have b: "set REQUIRED_COLS \<subseteq> set (header sample_file)"
    by (rule sample_file_header)
  have c: "load_data nanosecond_range today0 short_file =
     Inl (ValueError_missing_columns
            [''Project Vendor'', ''Project Priority'', ''Business Owner'',
             ''Project Initiation Date'', ''Target Completion Date'', ''Revised Timeline'',
             ''Objective'', ''Project Current Status'', ''Project Category'',
             ''Project Manager'', ''Project Custodian''])"
    by (simp add: load_data_def read_csv_def Let_def REQUIRED_COLS_def short_file_def)
  from load_data_schema_check [of sample_file nanosecond_range today0] b
  have "\<exists>tbl. load_data nanosecond_range today0 sample_file = Inr tbl" by blast
  with a b c show ?thesis by blast
qed

text \<open>
  C9. When the header has all thirteen required columns, \<open>load_data\<close> returns a table
  with one row for each data row of the file, in the order of the file: as many rows as
  the file has, the row at each position derived from the file's row at that position.
\<close>

theorem load_data_keeps_rows:
  assumes "set REQUIRED_COLS \<subseteq> set (header file)"
  shows "\<exists>tbl. load_data holds today file = Inr tbl \<and>
           length tbl = length (records file) \<and>
           (\<forall>i < length (records file).
              tbl ! i = load_row holds today (\<lambda>c. read_cell ((records file ! i) c)) \<and>
              ID (tbl ! i) = read_cell ((records file ! i) ''ID'') \<and>
              Name (tbl ! i) = read_cell ((records file ! i) ''Name''))"
proof -
  let ?tbl = "map (\<lambda>rec. load_row holds today (\<lambda>c. read_cell (rec c))) (records file)"
  from assms have "load_data holds today file = Inr ?tbl" by (rule load_data_complete)
  moreover have "length ?tbl = length (records file)" by simp
  moreover have "\<forall>i < length (records file).
              ?tbl ! i = load_row holds today (\<lambda>c. read_cell ((records file ! i) c)) \<and>
              ID (?tbl ! i) = read_cell ((records file ! i) ''ID'') \<and>
              Name (?tbl ! i) = read_cell ((records file ! i) ''Name'')"
    by (simp add: load_row_def Let_def)
  ultimately show ?thesis by blast
qed

theorem load_data_keeps_rows_witness:
  "set REQUIRED_COLS \<subseteq> set (header sample_file) \<and>
   load_data nanosecond_range today0 sample_file = Inr sample_table \<and>
   length sample_table = length (records sample_file) \<and>
   map Name sample_table = [Some ''Alpha'', Some ''Beta'', Some ''Gamma'']"
proof -
  have b: "set REQUIRED_COLS \<subseteq> set (header sample_file)"
    by (rule sample_file_header)
  from load_data_keeps_rows [OF b, of nanosecond_range today0]
  have "length sample_table = length (records sample_file)"
    by (auto simp: load_sample_file)
  moreover have "map Name sample_table = [Some ''Alpha'', Some ''Beta'', Some ''Gamma'']"
    by (simp add: sample_table_def sample_row1_def sample_row2_def sample_row3_def)
  ultimately show ?thesis using b load_sample_file by blast
qed




text \<open>
  C10. In every row of the table \<open>load_data\<close> returns, \<open>Overdue\<close> is one of the two
  truth values, whatever is missing in the row, and it is false whenever the planned end
  is missing.
\<close>

theorem overdue_is_boolean:
  assumes "load_data holds today file = Inr tbl" and "r \<in> set tbl"
  shows "(Overdue r = True \<or> Overdue r = False) \<and>
         (Planned_End r = None \<longrightarrow> Overdue r = False)"
proof -
  from assms obtain x where r: "r = load_row holds today x" by (rule load_data_row)
  have "Planned_End r = None \<longrightarrow> Overdue r = False"
    unfolding r by (simp add: load_row_def Let_def notna_def)
  then show ?thesis by blast
qed

theorem overdue_is_boolean_witness:
  "load_data nanosecond_range today0 sample_file = Inr sample_table \<and> sample_row3 \<in> set sample_table \<and>
   Planned_End sample_row3 = None \<and> Project_Current_Status sample_row3 = None \<and>
   Overdue sample_row3 = False"
proof -
  have m: "sample_row3 \<in> set sample_table" by (simp add: sample_table_def)
  have p: "Planned_End sample_row3 = None" "Project_Current_Status sample_row3 = None"
    by (simp_all add: sample_row3_def)
  from overdue_is_boolean [OF load_sample_file m] p
  have "Overdue sample_row3 = False" by blast
  with m p load_sample_file show ?thesis by blast
qed

text \<open>
  C3. For every table and every choice of the six selections, the filters keep exactly
  the rows that, for each field with a non-empty selection, have a value in that
  selection; so a row with a missing value in a filtered field is dropped, a field with an
  empty selection drops nothing, and the rows kept stand in the order they had.
\<close>

theorem filtered_keeps_matching_rows:
  "filtered s df = filter (row_matches s) df \<and>
   subseq (filtered s df) df \<and>
   (\<forall>r. r \<in> set (filtered s df) \<longleftrightarrow> r \<in> set df \<and> row_matches s r) \<and>
   (\<forall>(col, sel) \<in> set (selected_fields s).
      sel \<noteq> [] \<longrightarrow> (\<forall>r \<in> set (filtered s df). col r \<noteq> None)) \<and>
   ((\<forall>(col, sel) \<in> set (selected_fields s). sel = []) \<longrightarrow> filtered s df = df)"
proof -
  have eq: "filtered s df = filter (row_matches s) df" by (rule filtered_filter)
  have sub: "subseq (filtered s df) df" unfolding eq by (rule subseq_filter_left)
  have mem: "\<forall>r. r \<in> set (filtered s df) \<longleftrightarrow> r \<in> set df \<and> row_matches s r"
    unfolding eq by simp
  have null: "\<forall>(col, sel) \<in> set (selected_fields s).
      sel \<noteq> [] \<longrightarrow> (\<forall>r \<in> set (filtered s df). col r \<noteq> None)"
    unfolding eq by (auto simp: row_matches_def)
  have none: "(\<forall>(col, sel) \<in> set (selected_fields s). sel = []) \<longrightarrow> filtered s df = df"
  proof
    assume "\<forall>(col, sel) \<in> set (selected_fields s). sel = []"
    then have "\<forall>r \<in> set df. row_matches s r" by (auto simp: row_matches_def)
    then show "filtered s df = df" unfolding eq by (rule filter_True)
  qed
  from eq sub mem null none show ?thesis by blast
qed

theorem filtered_keeps_matching_rows_witness:
  "filtered some_selection sample_table = [sample_row1] \<and>
   row_matches some_selection sample_row1 \<and>
   \<not> row_matches some_selection sample_row2 \<and>
   \<not> row_matches some_selection sample_row3 \<and>
   Project_Manager sample_row2 = None \<and> Project_Priority sample_row3 = None \<and>
   filtered no_selection sample_table = sample_table"
proof -
  have m1: "row_matches some_selection sample_row1"
    by (simp add: row_matches_def selected_fields_def some_selection_def sample_row1_def)
  have m2: "\<not> row_matches some_selection sample_row2"
    by (simp add: row_matches_def selected_fields_def some_selection_def sample_row2_def)
  have m3: "\<not> row_matches some_selection sample_row3"
    by (simp add: row_matches_def selected_fields_def some_selection_def sample_row3_def)
  have n: "Project_Manager sample_row2 = None" "Project_Priority sample_row3 = None"
    by (simp_all add: sample_row2_def sample_row3_def)
  have e: "\<forall>(col, sel) \<in> set (selected_fields no_selection). sel = []"
    by (simp add: selected_fields_def no_selection_def)
  from filtered_keeps_matching_rows [of some_selection sample_table]
  have "filtered some_selection sample_table = filter (row_matches some_selection) sample_table"
    by blast
  with m1 m2 m3 have a: "filtered some_selection sample_table = [sample_row1]"
    by (simp add: sample_table_def)
  from filtered_keeps_matching_rows [of no_selection sample_table] e
  have b: "filtered no_selection sample_table = sample_table" by blast
  from a b m1 m2 m3 n show ?thesis by blast
qed

text \<open>
  C5, as stated, has the rows with both dates sorted by initiation date and then cut to
  the first \<open>limit\<close> rows. The code cuts first and sorts afterwards: of the two rows of
  \<open>timeline_file\<close>, with limit 1 (within the slider's range), it shows the row that
  stands first in the table, initiated in March, where the stated slice is the row
  initiated in January.
\<close>

theorem timeline_sort_then_cut_counterexample:
  "load_data nanosecond_range today0 timeline_file = Inr [row_march, row_january] \<and>
   (1::nat) \<le> min 50 (length [row_march, row_january]) \<and>
   fig_tl [row_march, row_january] 1 = [row_march] \<and>
   timelineSlice_spec [row_march, row_january] 1 = [row_january] \<and>
   row_march \<noteq> row_january"
proof -
  have a: "fig_tl [row_march, row_january] 1 = [row_march]"
    by (simp add: fig_tl_def timeline_df_def dropna_def notna_def sort_values_def Let_def
        row_march_def row_january_def)
  have b: "timelineSlice_spec [row_march, row_january] 1 = [row_january]"
    by (simp add: timelineSlice_spec_def dropna_def notna_def sort_values_def na_last_def
        row_march_def row_january_def)
  have c: "row_march \<noteq> row_january"
    by (simp add: row_march_def row_january_def)
  from a b c load_timeline_file show ?thesis by simp
qed

text \<open>
  C5, amended. For every table and every limit from 0 to the smaller of 50 and the size of
  the table, the timeline shows the first \<open>limit\<close> rows, in table order, of those that
  have both an initiation date and a planned end, sorted by ascending initiation date:
  never more than \<open>limit\<close> rows, never a row that lacks either date.
\<close>

theorem fig_tl_cut_then_sorted:
  assumes "show_n \<le> min 50 (length df)"
  shows "length (fig_tl df show_n) \<le> show_n \<and>
         (\<forall>r \<in> set (fig_tl df show_n).
            Project_Initiation_Date r \<noteq> None \<and> Planned_End r \<noteq> None) \<and>
         sorted_wrt
           (\<lambda>a b. \<exists>x y. Project_Initiation_Date a = Some x
                         \<and> Project_Initiation_Date b = Some y \<and> x \<le> y)
           (fig_tl df show_n) \<and>
         mset (fig_tl df show_n) =
           mset (take show_n
                   (filter (\<lambda>r. Project_Initiation_Date r \<noteq> None \<and> Planned_End r \<noteq> None) df))"
proof -
  let ?t = "timeline_df df show_n"
  have t: "?t = take show_n
                   (filter (\<lambda>r. Project_Initiation_Date r \<noteq> None \<and> Planned_End r \<noteq> None) df)"
    by (simp add: timeline_df_def dropna_def notna_iff)
  have len: "length (fig_tl df show_n) \<le> show_n"
    by (simp add: fig_tl_sort sort_values_def timeline_df_def)
  have ms: "mset (fig_tl df show_n) = mset ?t"
    by (simp add: fig_tl_sort sort_values_def)
  have st: "set (fig_tl df show_n) = set ?t"
    by (simp add: fig_tl_sort sort_values_def)
  have both: "\<forall>r \<in> set (fig_tl df show_n).
            Project_Initiation_Date r \<noteq> None \<and> Planned_End r \<noteq> None"
    unfolding st using set_timeline_df by blast
  have "\<forall>r \<in> set ?t. Project_Initiation_Date r \<noteq> None"
    using set_timeline_df by blast
  then have srt: "sorted_wrt
           (\<lambda>a b. \<exists>x y. Project_Initiation_Date a = Some x
                         \<and> Project_Initiation_Date b = Some y \<and> x \<le> y)
           (fig_tl df show_n)"
    unfolding fig_tl_sort by (rule sorted_sort_values)
  from len both srt ms t show ?thesis by simp
qed

theorem fig_tl_cut_then_sorted_witness:
  "(2::nat) \<le> min 50 (length [row_march, row_january, sample_row3]) \<and>
   fig_tl [row_march, row_january, sample_row3] 2 = [row_january, row_march]"
proof -
  have h: "(2::nat) \<le> min 50 (length [row_march, row_january, sample_row3])" by simp
  have e: "fig_tl [row_march, row_january, sample_row3] 2 = [row_january, row_march]"
    by (simp add: fig_tl_def timeline_df_def dropna_def notna_def sort_values_def Let_def
        na_last_def row_march_def row_january_def sample_row3_def)
  from fig_tl_cut_then_sorted [OF h] have "length (fig_tl [row_march, row_january, sample_row3] 2) \<le> 2"
    by blast
  with h e show ?thesis by simp
qed

text \<open>
  C6, as stated, has the export of a filtered table re-loaded into a table with the same
  row values, dates compared as dates. The export writes a date as year-month-day in
  digits, which \<open>load_data\<close> does not parse: the row of \<open>null_status_file\<close>, an
  overdue row, so that the export is defined, comes back from export and re-load without
  its target completion date and its planned end, and no longer overdue.
\<close>

theorem export_reload_counterexample:
  "load_data nanosecond_range today0 null_status_file = Inr [null_status_row] \<and>
   filtered no_selection [null_status_row] = [null_status_row] \<and>
   download_filtered_csv [null_status_row] = Inr (to_csv_bytes [null_status_row]) \<and>
   load_data nanosecond_range today0 (to_csv_bytes [null_status_row]) = Inr [reloaded_row] \<and>
   Target_Completion_Date null_status_row = Some (2020, 1, 1) \<and>
   Target_Completion_Date reloaded_row = None \<and>
   Planned_End null_status_row = Some (2020, 1, 1) \<and> Planned_End reloaded_row = None \<and>
   Overdue null_status_row = True \<and> Overdue reloaded_row = False"
proof -
  have f: "filtered no_selection [null_status_row] = [null_status_row]"
    by (simp add: filtered_def isin_rows_def no_selection_def)
  have d: "download_filtered_csv [null_status_row] = Inr (to_csv_bytes [null_status_row])"
    by (simp add: download_filtered_csv_def overdue_df_def null_status_row_def)
  have iso: "isoformat (2020, Suc 0, Suc 0) = ''2020-01-01''"
    by (simp add: isoformat_def digit_char_def)
  have r: "load_data nanosecond_range today0 (to_csv_bytes [null_status_row]) =
           Inr [reloaded_row]"
    by (simp add: load_defs parse_defs to_csv_bytes_def to_csv_row_def write_cell_def
        write_date_def iso reloaded_row_def null_status_row_def today0_def)
  have v: "Target_Completion_Date null_status_row = Some (2020, 1, 1)"
    "Target_Completion_Date reloaded_row = None"
    "Planned_End null_status_row = Some (2020, 1, 1)" "Planned_End reloaded_row = None"
    "Overdue null_status_row = True" "Overdue reloaded_row = False"
    by (simp_all add: reloaded_row_def null_status_row_def)
  from f d r v load_null_status_file show ?thesis by simp
qed

text \<open>
  C6, amended. For every filtered table that has an overdue row, the export is produced,
  and loading it gives a table with as many rows as the filtered table in which the three
  date columns and the planned end are missing and no row is overdue. (Of a filtered
  table with no overdue row, for which the script has not defined the export function,
  and of the values the reader infers for the other ten columns, nothing is said.)
\<close>

theorem export_reload_loses_dates:
  assumes "overdue_df (filtered s df) \<noteq> []"
  shows "\<exists>csv tbl. download_filtered_csv (filtered s df) = Inr csv \<and>
           load_data holds today csv = Inr tbl \<and>
           length tbl = length (filtered s df) \<and>
           (\<forall>r \<in> set tbl.
              Project_Initiation_Date r = None \<and> Target_Completion_Date r = None \<and>
              Revised_Timeline r = None \<and> Planned_End r = None \<and> Overdue r = False)"
proof -
  let ?flt = "filtered s df"
  let ?csv = "to_csv_bytes ?flt"
  let ?tbl = "map (\<lambda>rec. load_row holds today (\<lambda>c. read_cell (rec c))) (records ?csv)"
  from assms have "?flt \<noteq> []" by (auto simp: overdue_df_def)
  with assms have dl: "download_filtered_csv ?flt = Inr ?csv"
    by (simp add: download_filtered_csv_def)
  have hd: "set REQUIRED_COLS \<subseteq> set (header ?csv)"
    by (simp add: to_csv_bytes_def)
  then have ld: "load_data holds today ?csv = Inr ?tbl" by (rule load_data_complete)
  have len: "length ?tbl = length ?flt" by (simp add: to_csv_bytes_def)
  have rows: "\<forall>r \<in> set ?tbl.
              Project_Initiation_Date r = None \<and> Target_Completion_Date r = None \<and>
              Revised_Timeline r = None \<and> Planned_End r = None \<and> Overdue r = False"
  proof
    fix r assume "r \<in> set ?tbl"
    then obtain x where "r = load_row holds today (\<lambda>c. read_cell (to_csv_row x c))"
      by (auto simp: to_csv_bytes_def)
    then show "Project_Initiation_Date r = None \<and> Target_Completion_Date r = None \<and>
              Revised_Timeline r = None \<and> Planned_End r = None \<and> Overdue r = False"
      by (rule reload_row)
  qed
  from dl ld len rows show ?thesis by blast
qed

theorem export_reload_loses_dates_witness:
  "overdue_df (filtered no_selection sample_table) \<noteq> [] \<and>
   (\<exists>csv tbl. download_filtered_csv (filtered no_selection sample_table) = Inr csv \<and>
      load_data nanosecond_range today0 csv = Inr tbl \<and> length tbl = 3 \<and>
      (\<forall>r \<in> set tbl. Planned_End r = None \<and> Overdue r = False))"
proof -
  have f: "filtered no_selection sample_table = sample_table"
    by (simp add: filtered_def isin_rows_def no_selection_def)
  have o: "overdue_df (filtered no_selection sample_table) \<noteq> []"
    unfolding f by (simp add: overdue_df_def sample_table_def sample_row1_def)
  have l: "length (filtered no_selection sample_table) = 3"
    unfolding f by (simp add: sample_table_def)
  from export_reload_loses_dates [OF o, of nanosecond_range today0] l o
  show ?thesis by fastforce
qed

end
